theory Spec2Isabelle
  imports Main
begin

section \<open>Task generation for workload files (auto_tasks.py)\<close>

text \<open>
  A shallow embedding of \<^verbatim>\<open>src/lamplib/src/genny/tasks/auto_tasks.py\<close>.
  Python strings are \<open>string\<close>; the character classes of the regular expressions and
  \<^verbatim>\<open>str.lower\<close> are modelled on ASCII, which is what \<^verbatim>\<open>[A-Z]\<close>, \<^verbatim>\<open>[a-z]\<close> and
  \<^verbatim>\<open>[0-9]\<close> denote in a Python 3 pattern; lowering of letters outside ASCII is not
  part of the model.
\<close>

subsection \<open>Characters and strings\<close>

definition is_upper :: "char \<Rightarrow> bool" where
  \<comment> \<open>the class \<^verbatim>\<open>[A-Z]\<close>\<close>
  "is_upper c = (65 \<le> (of_char c :: nat) \<and> (of_char c :: nat) \<le> 90)"

definition is_lower :: "char \<Rightarrow> bool" where
  \<comment> \<open>the class \<^verbatim>\<open>[a-z]\<close>\<close>
  "is_lower c = (97 \<le> (of_char c :: nat) \<and> (of_char c :: nat) \<le> 122)"

definition is_digit :: "char \<Rightarrow> bool" where
  \<comment> \<open>the class \<^verbatim>\<open>[0-9]\<close>\<close>
  "is_digit c = (48 \<le> (of_char c :: nat) \<and> (of_char c :: nat) \<le> 57)"

definition to_lower :: "char \<Rightarrow> char" where
  "to_lower c = (if is_upper c then char_of (of_char c + 32 :: nat) else c)"

definition lower :: "string \<Rightarrow> string" where
  \<comment> \<open>\<^verbatim>\<open>s.lower()\<close>\<close>
  "lower s = map to_lower s"

fun starts_with :: "string \<Rightarrow> string \<Rightarrow> bool" where
  \<comment> \<open>\<^verbatim>\<open>s.startswith(p)\<close>\<close>
  "starts_with s [] = True"
| "starts_with [] (p # ps) = False"
| "starts_with (c # s) (p # ps) = (c = p \<and> starts_with s ps)"

fun str_in :: "string \<Rightarrow> string \<Rightarrow> bool" where
  \<comment> \<open>\<^verbatim>\<open>sub in s\<close> on two strings: \<open>sub\<close> occurs in \<open>s\<close>\<close>
  "str_in sub [] = (sub = [])"
| "str_in sub (c # s) = (starts_with (c # s) sub \<or> str_in sub s)"

fun split_first :: "string \<Rightarrow> string \<Rightarrow> string" where
  \<comment> \<open>\<^verbatim>\<open>s.split(sep)[0]\<close> for a non-empty \<open>sep\<close>: what precedes the first occurrence of
      \<open>sep\<close>, or all of \<open>s\<close> when there is none\<close>
  "split_first sep [] = []"
| "split_first sep (c # s) =
     (if starts_with (c # s) sep then [] else c # split_first sep s)"

definition basename :: "string \<Rightarrow> string" where
  \<comment> \<open>\<^verbatim>\<open>os.path.basename(p)\<close> (posixpath): what follows the last slash\<close>
  "basename p = rev (takeWhile (\<lambda>c. c \<noteq> CHR ''/'') (rev p))"

definition path_join :: "string \<Rightarrow> string \<Rightarrow> string" where
  \<comment> \<open>\<^verbatim>\<open>os.path.join(a, b)\<close> (posixpath) on two components\<close>
  "path_join a b =
     (if starts_with b ''/'' then b
      else if a = [] \<or> last a = CHR ''/'' then a @ b
      else a @ ''/'' @ b)"

subsection \<open>Name conversion\<close>

text \<open>
  \<^verbatim>\<open>re.sub("(.)([A-Z][a-z]+)", r"\1_\2", s)\<close>: scanning from the left, a match at a
  position needs a character other than a newline, then an upper-case letter, then at
  least one lower-case letter; the greedy \<^verbatim>\<open>[a-z]+\<close> takes the whole run of lower-case
  letters, and the scan goes on after the match. Where there is no match the character is
  kept and the scan moves on by one.
\<close>

function sub_upper_run :: "string \<Rightarrow> string" where
  "sub_upper_run (c # u # l # rest) =
     (if c \<noteq> CHR 0x0A \<and> is_upper u \<and> is_lower l
      then c # CHR ''_'' # u # l # takeWhile is_lower rest
             @ sub_upper_run (dropWhile is_lower rest)
      else c # sub_upper_run (u # l # rest))"
| "sub_upper_run [c, u] = [c, u]"
| "sub_upper_run [c] = [c]"
| "sub_upper_run [] = []"
  by pat_completeness auto
termination
  by (relation "measure length") (auto simp: le_imp_less_Suc length_dropWhile_le less_SucI)

definition sub_hyphen :: "string \<Rightarrow> string" where
  \<comment> \<open>\<^verbatim>\<open>re.sub("-", "_", s)\<close>\<close>
  "sub_hyphen s = map (\<lambda>c. if c = CHR ''-'' then CHR ''_'' else c) s"

fun sub_lower_upper :: "string \<Rightarrow> string" where
  \<comment> \<open>\<^verbatim>\<open>re.sub("([a-z0-9])([A-Z])", r"\1_\2", s)\<close>\<close>
  "sub_lower_upper (a # b # rest) =
     (if (is_lower a \<or> is_digit a) \<and> is_upper b
      then a # CHR ''_'' # b # sub_lower_upper rest
      else a # sub_lower_upper (b # rest))"
| "sub_lower_upper [a] = [a]"
| "sub_lower_upper [] = []"

definition to_snake_case :: "string \<Rightarrow> string" where
  "to_snake_case camel_case =
     (let s1 = sub_upper_run camel_case;
          s2 = sub_hyphen s1
      in lower (sub_lower_upper s2))"

subsection \<open>YAML documents and Python's operations on them\<close>

text \<open>
  What \<^verbatim>\<open>yaml.safe_load\<close> returns: \<^verbatim>\<open>None\<close>, a bool, an int, a str, a list or a dict.
  A dict is the list of its items in insertion order, with string keys (the keys of
  every block this module reads); its keys are distinct. Floats, timestamps and binary
  scalars are not part of the model. An attribute that Python leaves \<^verbatim>\<open>None\<close> is
  \<open>YNull\<close>, the value a YAML \<^verbatim>\<open>null\<close> loads to.
\<close>

datatype yaml =
    YNull
  | YBool bool
  | YInt int
  | YStr string
  | YList "yaml list"
  | YMap "(string \<times> yaml) list"

datatype py_error =
    FileNotFound string            \<comment> \<open>\<^verbatim>\<open>Exception(f"File {joined} not found.")\<close>\<close>
  | LoadError                      \<comment> \<open>raised by \<^verbatim>\<open>open\<close> or \<^verbatim>\<open>yaml.safe_load\<close>\<close>
  | UnknownKey string "string list"
      \<comment> \<open>\<^verbatim>\<open>Exception(f"Unknown key {key}. Know about {self.conts.keys()}")\<close>\<close>
  | ValueError string              \<comment> \<open>with its message\<close>
  | KeyError string                \<comment> \<open>with the missing key\<close>
  | TypeError
  | AttributeError
  | CommandError                   \<comment> \<open>raised by \<^verbatim>\<open>run_command(..., check=True)\<close>\<close>
  | InvalidOperationMode           \<comment> \<open>\<^verbatim>\<open>Exception("Invalid operation mode")\<close>\<close>

fun py_eq :: "yaml \<Rightarrow> yaml \<Rightarrow> bool" where
  \<comment> \<open>\<^verbatim>\<open>a == b\<close>: a bool equals the int 0 or 1, lists are compared item by item, dicts
      by their keys and the values under them\<close>
  "py_eq YNull y = (y = YNull)"
| "py_eq (YBool a) y =
     (case y of YBool b \<Rightarrow> a = b | YInt j \<Rightarrow> (if a then 1 else 0) = j | _ \<Rightarrow> False)"
| "py_eq (YInt i) y =
     (case y of YInt j \<Rightarrow> i = j | YBool b \<Rightarrow> i = (if b then 1 else 0) | _ \<Rightarrow> False)"
| "py_eq (YStr s) y = (case y of YStr t \<Rightarrow> s = t | _ \<Rightarrow> False)"
| "py_eq (YList xs) y =
     (case y of YList ys \<Rightarrow> list_all2 py_eq xs ys | _ \<Rightarrow> False)"
| "py_eq (YMap m) y =
     (case y of
        YMap n \<Rightarrow>
          length m = length n \<and>
          list_all (\<lambda>kv. case map_of n (fst kv) of
                            None \<Rightarrow> False
                          | Some v \<Rightarrow> py_eq (snd kv) v) m
      | _ \<Rightarrow> False)"

fun py_truthy :: "yaml \<Rightarrow> bool" where
  \<comment> \<open>the truth value \<^verbatim>\<open>not x\<close> negates\<close>
  "py_truthy YNull = False"
| "py_truthy (YBool b) = b"
| "py_truthy (YInt i) = (i \<noteq> 0)"
| "py_truthy (YStr s) = (s \<noteq> [])"
| "py_truthy (YList xs) = (xs \<noteq> [])"
| "py_truthy (YMap m) = (m \<noteq> [])"

fun py_contains :: "string \<Rightarrow> yaml \<Rightarrow> py_error + bool" where
  \<comment> \<open>\<^verbatim>\<open>key in x\<close> for a string \<open>key\<close>\<close>
  "py_contains key (YMap m) = Inr (map_of m key \<noteq> None)"
| "py_contains key (YList xs) = Inr (list_ex (\<lambda>x. py_eq x (YStr key)) xs)"
| "py_contains key (YStr s) = Inr (str_in key s)"
| "py_contains key YNull = Inl TypeError"
| "py_contains key (YBool b) = Inl TypeError"
| "py_contains key (YInt i) = Inl TypeError"

fun py_getitem :: "yaml \<Rightarrow> string \<Rightarrow> py_error + yaml" where
  \<comment> \<open>\<^verbatim>\<open>x[key]\<close> for a string \<open>key\<close>: only a dict can be indexed by a string\<close>
  "py_getitem (YMap m) key =
     (case map_of m key of None \<Rightarrow> Inl (KeyError key) | Some v \<Rightarrow> Inr v)"
| "py_getitem x key = Inl TypeError"

fun py_len :: "yaml \<Rightarrow> py_error + nat" where
  \<comment> \<open>\<^verbatim>\<open>len(x)\<close>\<close>
  "py_len (YMap m) = Inr (length m)"
| "py_len (YList xs) = Inr (length xs)"
| "py_len (YStr s) = Inr (length s)"
| "py_len x = Inl TypeError"

fun py_iter :: "yaml \<Rightarrow> py_error + yaml list" where
  \<comment> \<open>the items \<^verbatim>\<open>for v in x\<close> runs through: the items of a list, the keys of a dict,
      the characters of a string\<close>
  "py_iter (YList xs) = Inr xs"
| "py_iter (YMap m) = Inr (map (\<lambda>kv. YStr (fst kv)) m)"
| "py_iter (YStr s) = Inr (map (\<lambda>c. YStr [c]) s)"
| "py_iter x = Inl TypeError"

subsection \<open>YamlReader\<close>

text \<open>
  The file system as the reader sees it: a path that exists maps to what opening and
  parsing it gives, the document or the error raised.
\<close>

type_synonym files = "string \<rightharpoonup> (py_error + yaml)"

definition load :: "files \<Rightarrow> string \<Rightarrow> string \<Rightarrow> py_error + yaml" where
  "load fs ws_root path =
     (let joined = path_join ws_root path
      in case fs joined of
           None \<Rightarrow> Inl (FileNotFound joined)
         | Some r \<Rightarrow> r)"

definition exists :: "files \<Rightarrow> string \<Rightarrow> bool" where
  "exists fs path = (fs path \<noteq> None)"

fun load_set_loop ::
  "files \<Rightarrow> string \<Rightarrow> string list \<Rightarrow> (string \<times> yaml) list \<Rightarrow> py_error + (string \<times> yaml) list"
where
  \<comment> \<open>the \<^verbatim>\<open>for\<close> loop of \<^verbatim>\<open>load_set\<close>; on \<^verbatim>\<open>out[basename] = ...\<close> a key
      already there keeps its place and takes the new value\<close>
  "load_set_loop fs ws_root [] out = Inr out"
| "load_set_loop fs ws_root (to_load # rest) out =
     (let base = split_first ''.yml'' (basename to_load)
      in case load fs ws_root to_load of
           Inl e \<Rightarrow> Inl e
         | Inr doc \<Rightarrow>
             load_set_loop fs ws_root rest
               (if base \<in> fst ` set out
                then map (\<lambda>kv. if fst kv = base then (base, doc) else kv) out
                else out @ [(base, doc)]))"

definition load_set :: "files \<Rightarrow> string \<Rightarrow> string list \<Rightarrow> py_error + (string \<times> yaml) list" where
  "load_set fs ws_root files = load_set_loop fs ws_root (filter (exists fs) files) []"

subsection \<open>CLIOperation\<close>

datatype OpName = ALL_TASKS | VARIANT_TASKS | PATCH_TASKS

record CLIOperation =
  mode :: OpName
  variant :: yaml
  genny_repo_root :: string
  workspace_root :: string

definition load_build_variant :: "files \<Rightarrow> string \<Rightarrow> py_error + yaml" where
  \<comment> \<open>\<^verbatim>\<open>reader.load(workspace_root, "expansions.yml")["build_variant"]\<close>\<close>
  "load_build_variant fs ws_root =
     (case load fs ws_root ''expansions.yml'' of
        Inl e \<Rightarrow> Inl e
      | Inr conts \<Rightarrow> py_getitem conts ''build_variant'')"

definition create :: "string \<Rightarrow> files \<Rightarrow> string \<Rightarrow> string \<Rightarrow> py_error + CLIOperation" where
  \<comment> \<open>the three \<^verbatim>\<open>if\<close> statements run one after the other, each on the mode and
      variant the one before left\<close>
  "create mode_name fs repo_root ws_root =
     (let st0 = (ALL_TASKS, YNull);
          st1 = (if mode_name = ''all_tasks'' then (ALL_TASKS, snd st0) else st0);
          r2 = (if mode_name = ''patch_tasks''
                then (case load_build_variant fs ws_root of
                        Inl e \<Rightarrow> Inl e
                      | Inr v \<Rightarrow> Inr (PATCH_TASKS, v))
                else Inr st1)
      in case r2 of
           Inl e \<Rightarrow> Inl e
         | Inr st2 \<Rightarrow>
             (case (if mode_name = ''variant_tasks''
                    then (case load_build_variant fs ws_root of
                            Inl e \<Rightarrow> Inl e
                          | Inr v \<Rightarrow> Inr (VARIANT_TASKS, v))
                    else Inr st2) of
                Inl e \<Rightarrow> Inl e
              | Inr st3 \<Rightarrow>
                  Inr \<lparr>mode = fst st3, variant = snd st3,
                       genny_repo_root = repo_root, workspace_root = ws_root\<rparr>))"

subsection \<open>CurrentBuildInfo\<close>

record CurrentBuildInfo =
  conts :: yaml

definition CurrentBuildInfo_init :: "files \<Rightarrow> string \<Rightarrow> py_error + CurrentBuildInfo" where
  "CurrentBuildInfo_init fs ws_root =
     (case load fs ws_root ''expansions.yml'' of
        Inl e \<Rightarrow> Inl e
      | Inr c \<Rightarrow> Inr \<lparr>conts = c\<rparr>)"

fun py_keys :: "yaml \<Rightarrow> py_error + string list" where
  \<comment> \<open>\<^verbatim>\<open>x.keys()\<close>: only a dict has the method\<close>
  "py_keys (YMap m) = Inr (map fst m)"
| "py_keys x = Inl AttributeError"

fun any_eq :: "yaml \<Rightarrow> yaml list \<Rightarrow> bool" where
  \<comment> \<open>\<^verbatim>\<open>any(actual == v for v in vs)\<close>\<close>
  "any_eq actual [] = False"
| "any_eq actual (v # vs) = (if py_eq actual v then True else any_eq actual vs)"

definition has :: "CurrentBuildInfo \<Rightarrow> string \<Rightarrow> yaml \<Rightarrow> py_error + bool" where
  "has build key acceptable_values =
     (case py_contains key (conts build) of
        Inl e \<Rightarrow> Inl e
      | Inr False \<Rightarrow>
          (case py_keys (conts build) of
             Inl e \<Rightarrow> Inl e
           | Inr ks \<Rightarrow> Inl (UnknownKey key ks))
      | Inr True \<Rightarrow>
          (case py_getitem (conts build) key of
             Inl e \<Rightarrow> Inl e
           | Inr actual \<Rightarrow>
               (case py_iter acceptable_values of
                  Inl e \<Rightarrow> Inl e
                | Inr vs \<Rightarrow> Inr (any_eq actual vs))))"

subsection \<open>Workload\<close>

record Workload =
  file_path :: string
  is_modified :: bool
  requires :: yaml
  setups :: yaml

record GeneratedTask =
  name :: string
  mongodb_setup :: yaml
  workload :: Workload

definition setup_error :: "string \<Rightarrow> py_error" where
  "setup_error path =
     ValueError (''Need exactly mongodb_setup: [list] in PrepareEnvironmentWith for file '' @ path)"

definition read_setups :: "string \<Rightarrow> yaml \<Rightarrow> py_error + yaml" where
  \<comment> \<open>the body of \<^verbatim>\<open>if "PrepareEnvironmentWith" in auto_run\<close>: the value \<open>setups\<close>
      takes; \<^verbatim>\<open>or\<close> does not evaluate its right side when the length differs from 1\<close>
  "read_setups path auto_run =
     (case py_getitem auto_run ''PrepareEnvironmentWith'' of
        Inl e \<Rightarrow> Inl e
      | Inr prep \<Rightarrow>
          (case py_len prep of
             Inl e \<Rightarrow> Inl e
           | Inr n \<Rightarrow>
               if n \<noteq> 1 then Inl (setup_error path)
               else (case py_contains ''mongodb_setup'' prep of
                       Inl e \<Rightarrow> Inl e
                     | Inr False \<Rightarrow> Inl (setup_error path)
                     | Inr True \<Rightarrow> py_getitem prep ''mongodb_setup'')))"

definition Workload_init :: "files \<Rightarrow> string \<Rightarrow> string \<Rightarrow> bool \<Rightarrow> py_error + Workload" where
  \<comment> \<open>\<^verbatim>\<open>Workload.__init__\<close>; \<open>requires\<close> and \<open>setups\<close> start as the class's \<^verbatim>\<open>None\<close>\<close>
  "Workload_init fs ws_root path modified =
     (let self = \<lparr>file_path = path, is_modified = modified, requires = YNull, setups = YNull\<rparr>
      in case load fs ws_root path of
           Inl e \<Rightarrow> Inl e
         | Inr doc \<Rightarrow>
             (case py_contains ''AutoRun'' doc of
                Inl e \<Rightarrow> Inl e
              | Inr False \<Rightarrow> Inr self
              | Inr True \<Rightarrow>
                  (case py_getitem doc ''AutoRun'' of
                     Inl e \<Rightarrow> Inl e
                   | Inr auto_run \<Rightarrow>
                       (case py_getitem auto_run ''Requires'' of
                          Inl e \<Rightarrow> Inl e
                        | Inr req \<Rightarrow>
                            (case py_contains ''PrepareEnvironmentWith'' auto_run of
                               Inl e \<Rightarrow> Inl e
                             | Inr False \<Rightarrow> Inr (self\<lparr>requires := req\<rparr>)
                             | Inr True \<Rightarrow>
                                 (case read_setups path auto_run of
                                    Inl e \<Rightarrow> Inl e
                                  | Inr s \<Rightarrow> Inr (self\<lparr>requires := req, setups := s\<rparr>)))))))"

definition file_base_name :: "Workload \<Rightarrow> string" where
  "file_base_name self = split_first ''.yml'' (basename (file_path self))"

fun setup_tasks :: "Workload \<Rightarrow> string \<Rightarrow> yaml list \<Rightarrow> py_error + GeneratedTask list" where
  \<comment> \<open>the comprehension over \<open>setups\<close>; \<^verbatim>\<open>re.sub\<close> raises TypeError on a setup that
      is not a string\<close>
  "setup_tasks self base [] = Inr []"
| "setup_tasks self base (setup # rest) =
     (case setup of
        YStr s \<Rightarrow>
          (case setup_tasks self base rest of
             Inl e \<Rightarrow> Inl e
           | Inr ts \<Rightarrow>
               Inr (\<lparr>name = base @ ''_'' @ to_snake_case s,
                     mongodb_setup = setup, workload = self\<rparr> # ts))
      | _ \<Rightarrow> Inl TypeError)"

definition all_tasks :: "Workload \<Rightarrow> py_error + GeneratedTask list" where
  "all_tasks self =
     (let base = to_snake_case (file_base_name self)
      in if setups self = YNull
         then Inr [\<lparr>name = base, mongodb_setup = YNull, workload = self\<rparr>]
         else (case py_iter (setups self) of
                 Inl e \<Rightarrow> Inl e
               | Inr items \<Rightarrow> setup_tasks self base items))"

fun meets_loop :: "CurrentBuildInfo \<Rightarrow> (string \<times> yaml) list \<Rightarrow> bool \<Rightarrow> py_error + bool" where
  \<comment> \<open>the \<^verbatim>\<open>for\<close> loop of \<^verbatim>\<open>meets_criteria\<close> with its flag \<open>okay\<close>: every pair is
      tried, none is skipped after a failure. The log line has no part in the result
      and is left out.\<close>
  "meets_loop build [] okay = Inr okay"
| "meets_loop build (kv # rest) okay =
     (case has build (fst kv) (snd kv) of
        Inl e \<Rightarrow> Inl e
      | Inr r \<Rightarrow> meets_loop build rest (if \<not> r then False else okay))"

definition meets_criteria :: "Workload \<Rightarrow> CurrentBuildInfo \<Rightarrow> py_error + bool" where
  \<comment> \<open>\<^verbatim>\<open>self.requires.items()\<close> exists on a dict only\<close>
  "meets_criteria self build =
     (case requires self of
        YMap m \<Rightarrow> meets_loop build m True
      | _ \<Rightarrow> Inl AttributeError)"

fun keep_if_met ::
  "Workload \<Rightarrow> CurrentBuildInfo \<Rightarrow> GeneratedTask list \<Rightarrow> py_error + GeneratedTask list"
where
  \<comment> \<open>\<^verbatim>\<open>[task for task in tasks if meets_criteria()]\<close>: the test runs once for each
      task\<close>
  "keep_if_met self build [] = Inr []"
| "keep_if_met self build (task # rest) =
     (case meets_criteria self build of
        Inl e \<Rightarrow> Inl e
      | Inr ok \<Rightarrow>
          (case keep_if_met self build rest of
             Inl e \<Rightarrow> Inl e
           | Inr ts \<Rightarrow> Inr (if ok then task # ts else ts)))"

definition variant_tasks :: "Workload \<Rightarrow> CurrentBuildInfo \<Rightarrow> py_error + GeneratedTask list" where
  "variant_tasks self build =
     (if \<not> py_truthy (requires self) then Inr []
      else (case all_tasks self of
              Inl e \<Rightarrow> Inl e
            | Inr ts \<Rightarrow> keep_if_met self build ts))"

subsection \<open>WorkloadLister and Repo\<close>

text \<open>
  The lister's environment: the paths \<^verbatim>\<open>glob.glob\<close> returns for the workload pattern,
  and what the git command gives, its output lines or the error of a failed run. A
  Python set is the list of its elements in the order a loop visits them.
\<close>

record WorkloadLister =
  lister_repo_root :: string
  glob_result :: "string list"
  git_diff_lines :: "py_error + string list"

definition ends_with :: "string \<Rightarrow> string \<Rightarrow> bool" where
  \<comment> \<open>\<^verbatim>\<open>s.endswith(suffix)\<close>\<close>
  "ends_with s suffix = starts_with (rev s) (rev suffix)"

definition all_workload_files :: "WorkloadLister \<Rightarrow> string list" where
  "all_workload_files lister = remdups (glob_result lister)"

definition modified_workload_files :: "WorkloadLister \<Rightarrow> py_error + string list" where
  "modified_workload_files lister =
     (case git_diff_lines lister of
        Inl e \<Rightarrow> Inl e
      | Inr lines \<Rightarrow>
          Inr (remdups (map (path_join (lister_repo_root lister))
                          (filter (\<lambda>line. ends_with line ''.yml'') lines))))"

fun construct_workloads ::
  "files \<Rightarrow> string \<Rightarrow> string list \<Rightarrow> string list \<Rightarrow> py_error + Workload list"
where
  \<comment> \<open>the comprehension of \<^verbatim>\<open>all_workloads\<close>: one \<^verbatim>\<open>Workload(...)\<close> for each path, the
      first failure ends it\<close>
  "construct_workloads fs ws_root modified [] = Inr []"
| "construct_workloads fs ws_root modified (fpath # rest) =
     (case Workload_init fs ws_root fpath (fpath \<in> set modified) of
        Inl e \<Rightarrow> Inl e
      | Inr w \<Rightarrow>
          (case construct_workloads fs ws_root modified rest of
             Inl e \<Rightarrow> Inl e
           | Inr ws \<Rightarrow> Inr (w # ws)))"

definition all_workloads :: "files \<Rightarrow> string \<Rightarrow> WorkloadLister \<Rightarrow> py_error + Workload list" where
  "all_workloads fs ws_root lister =
     (let all_files = all_workload_files lister
      in case modified_workload_files lister of
           Inl e \<Rightarrow> Inl e
         | Inr modified \<Rightarrow> construct_workloads fs ws_root modified all_files)"

definition modified_workloads ::
  "files \<Rightarrow> string \<Rightarrow> WorkloadLister \<Rightarrow> py_error + Workload list"
where
  "modified_workloads fs ws_root lister =
     (case all_workloads fs ws_root lister of
        Inl e \<Rightarrow> Inl e
      | Inr ws \<Rightarrow> Inr (filter is_modified ws))"

fun flatten_tasks ::
  "(Workload \<Rightarrow> py_error + GeneratedTask list) \<Rightarrow> Workload list \<Rightarrow> py_error + GeneratedTask list"
where
  \<comment> \<open>\<^verbatim>\<open>[task for workload in workloads for task in f(workload)]\<close>\<close>
  "flatten_tasks f [] = Inr []"
| "flatten_tasks f (w # rest) =
     (case f w of
        Inl e \<Rightarrow> Inl e
      | Inr ts \<Rightarrow>
          (case flatten_tasks f rest of
             Inl e \<Rightarrow> Inl e
           | Inr others \<Rightarrow> Inr (ts @ others)))"

definition repo_all_tasks ::
  "files \<Rightarrow> string \<Rightarrow> WorkloadLister \<Rightarrow> py_error + GeneratedTask list"
where
  \<comment> \<open>\<^verbatim>\<open>Repo.all_tasks\<close>\<close>
  "repo_all_tasks fs ws_root lister =
     (case all_workloads fs ws_root lister of
        Inl e \<Rightarrow> Inl e
      | Inr ws \<Rightarrow> flatten_tasks all_tasks ws)"

definition repo_variant_tasks ::
  "files \<Rightarrow> string \<Rightarrow> WorkloadLister \<Rightarrow> CurrentBuildInfo \<Rightarrow> py_error + GeneratedTask list"
where
  \<comment> \<open>\<^verbatim>\<open>Repo.variant_tasks\<close>\<close>
  "repo_variant_tasks fs ws_root lister build =
     (case all_workloads fs ws_root lister of
        Inl e \<Rightarrow> Inl e
      | Inr ws \<Rightarrow> flatten_tasks (\<lambda>w. variant_tasks w build) ws)"

definition patch_tasks ::
  "files \<Rightarrow> string \<Rightarrow> WorkloadLister \<Rightarrow> py_error + GeneratedTask list"
where
  "patch_tasks fs ws_root lister =
     (case modified_workloads fs ws_root lister of
        Inl e \<Rightarrow> Inl e
      | Inr ws \<Rightarrow> flatten_tasks all_tasks ws)"

definition tasks ::
  "files \<Rightarrow> string \<Rightarrow> WorkloadLister \<Rightarrow> CLIOperation \<Rightarrow> CurrentBuildInfo
     \<Rightarrow> py_error + GeneratedTask list"
where
  \<comment> \<open>\<^verbatim>\<open>Repo.tasks\<close>; the \<^verbatim>\<open>else\<close> branch has no mode left to reach it\<close>
  "tasks fs ws_root lister op build =
     (case mode op of
        ALL_TASKS \<Rightarrow> repo_all_tasks fs ws_root lister
      | PATCH_TASKS \<Rightarrow> patch_tasks fs ws_root lister
      | VARIANT_TASKS \<Rightarrow> repo_variant_tasks fs ws_root lister build)"

subsection \<open>Vocabulary of the properties\<close>

definition name_char :: "char \<Rightarrow> bool" where
  \<comment> \<open>a character of a CamelCase or hyphenated name: an ASCII letter, a digit, a hyphen
      or an underscore\<close>
  "name_char c = (is_upper c \<or> is_lower c \<or> is_digit c \<or> c = CHR ''-'' \<or> c = CHR ''_'')"

definition snake_char :: "char \<Rightarrow> bool" where
  \<comment> \<open>a lower-case letter, a digit or an underscore\<close>
  "snake_char c = (is_lower c \<or> is_digit c \<or> c = CHR ''_'')"

subsection \<open>Example inputs\<close>

definition fs_no_requires :: files where
  \<comment> \<open>a workload file whose AutoRun block has no Requires key\<close>
  "fs_no_requires =
     [''/repo/src/workloads/Foo.yml'' \<mapsto>
        Inr (YMap [(''AutoRun'',
               YMap [(''PrepareEnvironmentWith'',
                      YMap [(''mongodb_setup'', YList [YStr ''standalone''])])])])]"

definition fs_plain :: files where
  \<comment> \<open>a workload file without an AutoRun block\<close>
  "fs_plain =
     [''/repo/src/workloads/scale/InsertRemove.yml'' \<mapsto>
        Inr (YMap [(''SchemaVersion'', YStr ''2018-07-01''), (''Actors'', YList [])])]"

definition workload_plain :: Workload where
  "workload_plain =
     \<lparr>file_path = ''/repo/src/workloads/scale/InsertRemove.yml'', is_modified = True,
      requires = YNull, setups = YNull\<rparr>"

definition workload_my :: Workload where
  \<comment> \<open>base name MyWorkload, setups a and b\<close>
  "workload_my =
     \<lparr>file_path = ''/repo/src/workloads/MyWorkload.yml'', is_modified = False,
      requires = YMap [], setups = YList [YStr ''a'', YStr ''b'']\<rparr>"

definition fs_empty_requires :: files where
  \<comment> \<open>a workload file whose Requires block is the empty mapping\<close>
  "fs_empty_requires =
     [''/repo/src/workloads/Foo.yml'' \<mapsto> Inr (YMap [(''AutoRun'', YMap [(''Requires'', YMap [])])])]"

definition workload_empty_requires :: Workload where
  "workload_empty_requires =
     \<lparr>file_path = ''/repo/src/workloads/Foo.yml'', is_modified = False,
      requires = YMap [], setups = YNull\<rparr>"

definition workload_standalone :: Workload where
  "workload_standalone =
     \<lparr>file_path = ''/repo/src/workloads/Foo.yml'', is_modified = False,
      requires = YMap [(''mongodb'', YList [YStr ''standalone'']),
                       (''build_variant'', YList [YStr ''linux'', YStr ''osx''])],
      setups = YNull\<rparr>"

definition build_linux :: "yaml \<Rightarrow> CurrentBuildInfo" where
  \<comment> \<open>the expansions of a linux build with the given value of \<^verbatim>\<open>mongodb\<close>\<close>
  "build_linux topology =
     \<lparr>conts = YMap [(''build_variant'', YStr ''linux''), (''mongodb'', topology)]\<rparr>"

definition fs_prep :: "yaml \<Rightarrow> files" where
  \<comment> \<open>a workload file with a Requires block and the given PrepareEnvironmentWith block\<close>
  "fs_prep prep =
     [''/repo/src/workloads/Foo.yml'' \<mapsto>
        Inr (YMap [(''AutoRun'',
               YMap [(''Requires'', YMap [(''mongodb'', YList [YStr ''standalone''])]),
                     (''PrepareEnvironmentWith'', prep)])])]"

definition fs_cwd_only :: files where
  \<comment> \<open>\<^verbatim>\<open>a.yml\<close> is in the working directory of the process; the directory \<^verbatim>\<open>ws\<close> has no such
      file\<close>
  "fs_cwd_only = [''a.yml'' \<mapsto> Inr (YMap [(''k'', YInt 1)])]"

definition fs_two :: files where
  \<comment> \<open>two workload files: A without an AutoRun block, B requiring a linux build\<close>
  "fs_two =
     [''/repo/src/workloads/A.yml'' \<mapsto> Inr (YMap [(''Actors'', YList [])]),
      ''/repo/src/workloads/B.yml'' \<mapsto>
        Inr (YMap [(''AutoRun'',
               YMap [(''Requires'', YMap [(''build_variant'', YList [YStr ''linux''])]),
                     (''PrepareEnvironmentWith'',
                      YMap [(''mongodb_setup'', YList [YStr ''x''])])])])]"

definition lister_two :: WorkloadLister where
  \<comment> \<open>both files are found, git reports B and a file that is no workload\<close>
  "lister_two =
     \<lparr>lister_repo_root = ''/repo'',
      glob_result = [''/repo/src/workloads/A.yml'', ''/repo/src/workloads/B.yml''],
      git_diff_lines = Inr [''src/workloads/B.yml'', ''src/workloads/README.md'']\<rparr>"

definition workload_a :: Workload where
  "workload_a =
     \<lparr>file_path = ''/repo/src/workloads/A.yml'', is_modified = False,
      requires = YNull, setups = YNull\<rparr>"

definition workload_b :: Workload where
  "workload_b =
     \<lparr>file_path = ''/repo/src/workloads/B.yml'', is_modified = True,
      requires = YMap [(''build_variant'', YList [YStr ''linux''])],
      setups = YList [YStr ''x'']\<rparr>"

definition workload_string_setup :: Workload where
  \<comment> \<open>what \<^verbatim>\<open>mongodb_setup: standalone\<close>, a string in place of a list, constructs\<close>
  "workload_string_setup =
     \<lparr>file_path = ''/repo/src/workloads/Foo.yml'', is_modified = False,
      requires = YMap [(''mongodb'', YList [YStr ''standalone''])],
      setups = YStr ''standalone''\<rparr>"

section \<open>Properties\<close>

subsection \<open>Name conversion\<close>

lemma of_char_to_lower:
  "is_upper c \<Longrightarrow> (of_char (to_lower c) :: nat) = of_char c + 32"
  by (simp add: to_lower_def is_upper_def)

lemma to_lower_not_upper: "\<not> is_upper (to_lower c)"
proof (cases "is_upper c")
  case True
  then show ?thesis using of_char_to_lower [OF True] by (simp add: is_upper_def)
next
  case False
  then show ?thesis by (simp add: to_lower_def)
qed

lemma to_lower_is_lower: "is_upper c \<Longrightarrow> is_lower (to_lower c)"
  using of_char_to_lower [of c] by (simp add: is_upper_def is_lower_def)

lemma to_lower_not_hyphen: "c \<noteq> CHR ''-'' \<Longrightarrow> to_lower c \<noteq> CHR ''-''"
proof (cases "is_upper c")
  case True
  then have "(of_char (to_lower c) :: nat) \<noteq> of_char (CHR ''-'')"
    using of_char_to_lower [OF True] by (simp add: is_upper_def)
  then show ?thesis by auto
next
  case False
  assume "c \<noteq> CHR ''-''"
  with False show ?thesis by (simp add: to_lower_def)
qed

lemma to_lower_id: "\<not> is_upper c \<Longrightarrow> to_lower c = c"
  by (simp add: to_lower_def)

lemma set_sub_upper_run: "set (sub_upper_run s) \<subseteq> insert (CHR ''_'') (set s)"
proof (induction s rule: sub_upper_run.induct)
  case (1 c u l rest)
  have "set (takeWhile is_lower rest) \<subseteq> set rest" by (auto dest: set_takeWhileD)
  moreover have "set (dropWhile is_lower rest) \<subseteq> set rest" by (auto dest: set_dropWhileD)
  ultimately show ?case using 1 by (auto split: if_splits)
qed simp_all

lemma set_sub_lower_upper: "set (sub_lower_upper s) \<subseteq> insert (CHR ''_'') (set s)"
  by (induction s rule: sub_lower_upper.induct) auto

lemma set_sub_hyphen: "set (sub_hyphen s) \<subseteq> insert (CHR ''_'') (set s) - {CHR ''-''}"
  by (auto simp: sub_hyphen_def)

lemma sub_upper_run_id: "\<forall>c\<in>set s. \<not> is_upper c \<Longrightarrow> sub_upper_run s = s"
  by (induction s rule: sub_upper_run.induct) auto

lemma sub_lower_upper_id: "\<forall>c\<in>set s. \<not> is_upper c \<Longrightarrow> sub_lower_upper s = s"
  by (induction s rule: sub_lower_upper.induct) auto

lemma sub_hyphen_id: "CHR ''-'' \<notin> set s \<Longrightarrow> sub_hyphen s = s"
  by (induction s) (auto simp: sub_hyphen_def)

lemma lower_id: "\<forall>c\<in>set s. \<not> is_upper c \<Longrightarrow> lower s = s"
  by (induction s) (auto simp: lower_def to_lower_id)

lemma to_snake_case_no_upper: "c \<in> set (to_snake_case s) \<Longrightarrow> \<not> is_upper c"
  by (auto simp: to_snake_case_def lower_def to_lower_not_upper)

lemma to_snake_case_no_hyphen: "CHR ''-'' \<notin> set (to_snake_case s)"
proof
  assume "CHR ''-'' \<in> set (to_snake_case s)"
  then obtain d where d: "d \<in> set (sub_lower_upper (sub_hyphen (sub_upper_run s)))"
    and e: "to_lower d = CHR ''-''"
    by (auto simp: to_snake_case_def lower_def)
  from d have "d \<noteq> CHR ''-''"
    using set_sub_lower_upper [of "sub_hyphen (sub_upper_run s)"]
      set_sub_hyphen [of "sub_upper_run s"] by auto
  with e show False using to_lower_not_hyphen by blast
qed

lemma to_snake_case_fixed:
  "\<forall>c\<in>set t. \<not> is_upper c \<Longrightarrow> CHR ''-'' \<notin> set t \<Longrightarrow> to_snake_case t = t"
  by (simp add: to_snake_case_def sub_upper_run_id sub_hyphen_id sub_lower_upper_id lower_id)

lemma to_snake_case_idem: "to_snake_case (to_snake_case s) = to_snake_case s"
  by (rule to_snake_case_fixed) (auto simp: to_snake_case_no_upper to_snake_case_no_hyphen)

lemma snake_char_to_lower: "name_char d \<Longrightarrow> d \<noteq> CHR ''-'' \<Longrightarrow> snake_char (to_lower d)"
proof (cases "is_upper d")
  case True
  then show ?thesis by (simp add: snake_char_def to_lower_is_lower)
next
  case False
  assume "name_char d" and "d \<noteq> CHR ''-''"
  with False show ?thesis by (simp add: to_lower_id name_char_def snake_char_def)
qed

lemma to_snake_case_chars:
  assumes "\<forall>c\<in>set s. name_char c" and "c \<in> set (to_snake_case s)"
  shows "snake_char c"
proof -
  from assms(2) obtain d where d: "d \<in> set (sub_lower_upper (sub_hyphen (sub_upper_run s)))"
    and c: "c = to_lower d"
    by (auto simp: to_snake_case_def lower_def)
  from d have dh: "d \<noteq> CHR ''-''" and "d = CHR ''_'' \<or> d \<in> set s"
    using set_sub_lower_upper [of "sub_hyphen (sub_upper_run s)"]
      set_sub_hyphen [of "sub_upper_run s"] set_sub_upper_run [of s] by auto
  then have "name_char d" using assms(1) by (auto simp: name_char_def)
  with dh c show ?thesis by (simp add: snake_char_to_lower)
qed

text \<open>
  C7. For every name made of ASCII letters, digits, hyphens and underscores (the
  CamelCase and hyphenated workload base names), converting the converted name again
  changes nothing, and the converted name holds only lower-case letters, digits and
  underscores.
\<close>

theorem to_snake_case_idempotent_and_clean:
  assumes "\<forall>c\<in>set s. name_char c"
  shows "to_snake_case (to_snake_case s) = to_snake_case s \<and>
         (\<forall>c\<in>set (to_snake_case s). snake_char c)"
  using assms by (auto simp: to_snake_case_idem intro: to_snake_case_chars)

theorem to_snake_case_idempotent_and_clean_witness:
  "list_all name_char ''HTTPServer-fooBar2X'' \<and>
   to_snake_case ''HTTPServer-fooBar2X'' = ''http_server_foo_bar2_x'' \<and>
   to_snake_case ''http_server_foo_bar2_x'' = ''http_server_foo_bar2_x'' \<and>
   list_all snake_char ''http_server_foo_bar2_x''"
proof -
  have h: "\<forall>c\<in>set ''HTTPServer-fooBar2X''. name_char c" by code_simp
  have v: "to_snake_case ''HTTPServer-fooBar2X'' = ''http_server_foo_bar2_x''" by code_simp
  from to_snake_case_idempotent_and_clean [OF h] h v show ?thesis
    by (simp add: list_all_iff)
qed

subsection \<open>CLIOperation.create\<close>

text \<open>
  C9. For every mode string other than \<^verbatim>\<open>all_tasks\<close>, \<^verbatim>\<open>patch_tasks\<close> and
  \<^verbatim>\<open>variant_tasks\<close>, \<open>create\<close> returns, without an error and without reading any file,
  the operation with mode \<open>ALL_TASKS\<close> and no variant.
\<close>

theorem create_unrecognized_mode:
  assumes "mode_name \<noteq> ''all_tasks''" and "mode_name \<noteq> ''patch_tasks''"
    and "mode_name \<noteq> ''variant_tasks''"
  shows "create mode_name fs repo_root ws_root =
         Inr \<lparr>mode = ALL_TASKS, variant = YNull,
              genny_repo_root = repo_root, workspace_root = ws_root\<rparr>"
  using assms by (simp add: create_def)

theorem create_unrecognized_mode_witness:
  "''bogus'' \<noteq> ''all_tasks'' \<and> ''bogus'' \<noteq> ''patch_tasks'' \<and> ''bogus'' \<noteq> ''variant_tasks'' \<and>
   create ''bogus'' Map.empty ''/repo'' ''/ws'' =
     Inr \<lparr>mode = ALL_TASKS, variant = YNull,
          genny_repo_root = ''/repo'', workspace_root = ''/ws''\<rparr>"
  using create_unrecognized_mode [of "''bogus''" Map.empty "''/repo''" "''/ws''"] by simp

subsection \<open>Workload construction\<close>

text \<open>
  C10. When the workload document is a mapping whose \<^verbatim>\<open>AutoRun\<close> block is a mapping
  without a \<^verbatim>\<open>Requires\<close> key, construction fails with the KeyError of the lookup
  \<^verbatim>\<open>auto_run["Requires"]\<close>, whatever else the block holds.
\<close>

theorem Workload_init_requires_mandatory:
  assumes "load fs ws_root path = Inr (YMap doc)"
    and "map_of doc ''AutoRun'' = Some (YMap auto_run)"
    and "map_of auto_run ''Requires'' = None"
  shows "Workload_init fs ws_root path modified = Inl (KeyError ''Requires'')"
  using assms by (simp add: Workload_init_def)

theorem Workload_init_requires_mandatory_witness:
  "load fs_no_requires ''/ws'' ''/repo/src/workloads/Foo.yml'' =
     Inr (YMap [(''AutoRun'',
            YMap [(''PrepareEnvironmentWith'',
                   YMap [(''mongodb_setup'', YList [YStr ''standalone''])])])]) \<and>
   Workload_init fs_no_requires ''/ws'' ''/repo/src/workloads/Foo.yml'' False =
     Inl (KeyError ''Requires'')"
proof -
  have l: "load fs_no_requires ''/ws'' ''/repo/src/workloads/Foo.yml'' =
     Inr (YMap [(''AutoRun'',
            YMap [(''PrepareEnvironmentWith'',
                   YMap [(''mongodb_setup'', YList [YStr ''standalone''])])])])"
    by (simp add: load_def path_join_def fs_no_requires_def)
  from Workload_init_requires_mandatory [OF l, of "[(''PrepareEnvironmentWith'',
                   YMap [(''mongodb_setup'', YList [YStr ''standalone''])])]" False] l
  show ?thesis by simp
qed

subsection \<open>CurrentBuildInfo.has\<close>

lemma any_eq_iff: "any_eq actual vs = (\<exists>v\<in>set vs. py_eq actual v)"
  by (induction vs) auto

text \<open>
  C6. On a build context whose expansions are a mapping, \<open>has\<close> raises the error naming
  the key when the key is absent from the mapping, whatever the acceptable values, and
  when the key is present and the acceptable values are a list it returns whether the
  mapping's value equals (Python's \<^verbatim>\<open>==\<close>) one of them.
\<close>

theorem has_spec:
  assumes "conts build = YMap m"
  shows "(map_of m key = None \<longrightarrow>
            has build key acceptable_values = Inl (UnknownKey key (map fst m))) \<and>
         (\<forall>actual vs. map_of m key = Some actual \<and> acceptable_values = YList vs \<longrightarrow>
            has build key acceptable_values = Inr (\<exists>v\<in>set vs. py_eq actual v))"
  using assms by (auto simp: has_def any_eq_iff)

theorem has_spec_witness:
  "has \<lparr>conts = YMap [(''mongodb'', YStr ''standalone'')]\<rparr> ''platform'' (YList [YStr ''linux''])
     = Inl (UnknownKey ''platform'' [''mongodb'']) \<and>
   has \<lparr>conts = YMap [(''mongodb'', YStr ''standalone'')]\<rparr> ''mongodb''
     (YList [YStr ''replica'', YStr ''standalone'']) = Inr True \<and>
   has \<lparr>conts = YMap [(''mongodb'', YStr ''standalone'')]\<rparr> ''mongodb''
     (YList [YStr ''replica'']) = Inr False"
  using has_spec [of "\<lparr>conts = YMap [(''mongodb'', YStr ''standalone'')]\<rparr>"
      "[(''mongodb'', YStr ''standalone'')]" "''platform''" "YList [YStr ''linux'']"]
    has_spec [of "\<lparr>conts = YMap [(''mongodb'', YStr ''standalone'')]\<rparr>"
      "[(''mongodb'', YStr ''standalone'')]" "''mongodb''" "YList [YStr ''replica'', YStr ''standalone'']"]
    has_spec [of "\<lparr>conts = YMap [(''mongodb'', YStr ''standalone'')]\<rparr>"
      "[(''mongodb'', YStr ''standalone'')]" "''mongodb''" "YList [YStr ''replica'']"]
  by simp

subsection \<open>Workloads without an AutoRun block\<close>

lemma variant_tasks_no_requires: "requires w = YNull \<Longrightarrow> variant_tasks w build = Inr []"
  by (simp add: variant_tasks_def)

text \<open>
  C4. When the workload document is a mapping without the top-level key \<^verbatim>\<open>AutoRun\<close>,
  the workload is constructed, \<open>all_tasks\<close> returns exactly one task, named the snake
  case of the file base name and carrying no setup, and \<open>variant_tasks\<close> returns the
  empty list for every build context.
\<close>

theorem no_auto_run_single_task:
  assumes "load fs ws_root path = Inr (YMap doc)"
    and "map_of doc ''AutoRun'' = None"
  shows "\<exists>w. Workload_init fs ws_root path modified = Inr w \<and>
             all_tasks w =
               Inr [\<lparr>name = to_snake_case (split_first ''.yml'' (basename path)),
                     mongodb_setup = YNull, workload = w\<rparr>] \<and>
             (\<forall>build. variant_tasks w build = Inr [])"
  using assms
  by (simp add: Workload_init_def all_tasks_def file_base_name_def variant_tasks_no_requires)

theorem no_auto_run_single_task_witness:
  "load fs_plain ''/ws'' ''/repo/src/workloads/scale/InsertRemove.yml'' =
     Inr (YMap [(''SchemaVersion'', YStr ''2018-07-01''), (''Actors'', YList [])]) \<and>
   Workload_init fs_plain ''/ws'' ''/repo/src/workloads/scale/InsertRemove.yml'' True =
     Inr workload_plain \<and>
   all_tasks workload_plain =
     Inr [\<lparr>name = ''insert_remove'', mongodb_setup = YNull, workload = workload_plain\<rparr>] \<and>
   variant_tasks workload_plain \<lparr>conts = YMap [(''build_variant'', YStr ''linux'')]\<rparr> = Inr []"
proof -
  have l: "load fs_plain ''/ws'' ''/repo/src/workloads/scale/InsertRemove.yml'' =
     Inr (YMap [(''SchemaVersion'', YStr ''2018-07-01''), (''Actors'', YList [])])"
    by (simp add: load_def path_join_def fs_plain_def)
  have n: "to_snake_case (split_first ''.yml'' (basename ''/repo/src/workloads/scale/InsertRemove.yml''))
           = ''insert_remove''"
    by code_simp
  have w: "Workload_init fs_plain ''/ws'' ''/repo/src/workloads/scale/InsertRemove.yml'' True =
     Inr workload_plain"
    using l by (simp add: Workload_init_def workload_plain_def)
  from no_auto_run_single_task [OF l, of True] l n w show ?thesis by auto
qed

subsection \<open>One task for each setup\<close>

lemma setup_tasks_strings:
  "setup_tasks w base (map YStr ss) =
     Inr (map (\<lambda>s. \<lparr>name = base @ ''_'' @ to_snake_case s,
                     mongodb_setup = YStr s, workload = w\<rparr>) ss)"
  by (induction ss) simp_all

text \<open>
  C5. For a workload whose setups are a list of strings, \<open>all_tasks\<close> returns one task
  for each setup, in the order of the list, named the snake-cased file base name, an
  underscore and the snake-cased setup. For base name MyWorkload and setups a, b these
  are my_workload_a and my_workload_b.
\<close>

theorem all_tasks_one_per_setup:
  assumes "setups w = YList (map YStr ss)"
  shows "all_tasks w =
           Inr (map (\<lambda>s. \<lparr>name = to_snake_case (file_base_name w) @ ''_'' @ to_snake_case s,
                           mongodb_setup = YStr s, workload = w\<rparr>) ss)"
  using assms by (simp add: all_tasks_def setup_tasks_strings)

theorem all_tasks_one_per_setup_witness:
  "setups workload_my = YList (map YStr [''a'', ''b'']) \<and>
   file_base_name workload_my = ''MyWorkload'' \<and>
   all_tasks workload_my =
     Inr [\<lparr>name = ''my_workload_a'', mongodb_setup = YStr ''a'', workload = workload_my\<rparr>,
          \<lparr>name = ''my_workload_b'', mongodb_setup = YStr ''b'', workload = workload_my\<rparr>]"
proof -
  have s: "setups workload_my = YList (map YStr [''a'', ''b''])"
    by (simp add: workload_my_def)
  have b: "file_base_name workload_my = ''MyWorkload''"
    by (simp add: workload_my_def file_base_name_def basename_def)
  have n: "to_snake_case ''MyWorkload'' = ''my_workload''" "to_snake_case ''a'' = ''a''"
    "to_snake_case ''b'' = ''b''"
    by code_simp+
  from all_tasks_one_per_setup [OF s] s b n show ?thesis by simp
qed

subsection \<open>Workload.variant_tasks\<close>

lemma meets_loop_all:
  "\<forall>kv\<in>set m. \<exists>r. has build (fst kv) (snd kv) = Inr r \<Longrightarrow>
   meets_loop build m okay =
     Inr (okay \<and> (\<forall>kv\<in>set m. has build (fst kv) (snd kv) = Inr True))"
proof (induction m arbitrary: okay)
  case Nil
  then show ?case by simp
next
  case (Cons kv m)
  from Cons.prems obtain r where r: "has build (fst kv) (snd kv) = Inr r" by auto
  from Cons.prems have "\<forall>kv\<in>set m. \<exists>r. has build (fst kv) (snd kv) = Inr r" by simp
  from Cons.IH [OF this] r show ?case by auto
qed

lemma keep_if_met_const:
  "meets_criteria w build = Inr ok \<Longrightarrow> keep_if_met w build ts = Inr (if ok then ts else [])"
  by (induction ts) simp_all

text \<open>
  C1, as the code has it. A workload with no requirements, or with an empty rule set,
  yields the empty list for every build context. For a workload whose rule set is a
  non-empty mapping, when \<open>all_tasks\<close> returns and \<open>has\<close> answers for every pair of the
  rule set, \<open>variant_tasks\<close> returns the tasks of \<open>all_tasks\<close> if every pair is satisfied
  and the empty list otherwise.
\<close>

theorem variant_tasks_spec:
  "(requires w = YNull \<or> requires w = YMap [] \<longrightarrow> variant_tasks w build = Inr []) \<and>
   (\<forall>m ts. requires w = YMap m \<and> m \<noteq> [] \<and> all_tasks w = Inr ts \<and>
            (\<forall>kv\<in>set m. \<exists>r. has build (fst kv) (snd kv) = Inr r) \<longrightarrow>
      variant_tasks w build =
        Inr (if \<forall>kv\<in>set m. has build (fst kv) (snd kv) = Inr True then ts else []))"
proof (intro conjI allI impI)
  assume "requires w = YNull \<or> requires w = YMap []"
  then show "variant_tasks w build = Inr []" by (auto simp: variant_tasks_def)
next
  fix m ts
  assume a: "requires w = YMap m \<and> m \<noteq> [] \<and> all_tasks w = Inr ts \<and>
            (\<forall>kv\<in>set m. \<exists>r. has build (fst kv) (snd kv) = Inr r)"
  then have "meets_criteria w build =
      Inr (\<forall>kv\<in>set m. has build (fst kv) (snd kv) = Inr True)"
    by (simp add: meets_criteria_def meets_loop_all)
  from keep_if_met_const [OF this] a
  show "variant_tasks w build =
        Inr (if \<forall>kv\<in>set m. has build (fst kv) (snd kv) = Inr True then ts else [])"
    by (simp add: variant_tasks_def)
qed

lemma has_build_linux:
  "has (build_linux t) ''mongodb'' (YList [YStr ''standalone'']) = Inr (py_eq t (YStr ''standalone''))"
  "has (build_linux t) ''build_variant'' (YList [YStr ''linux'', YStr ''osx'']) = Inr True"
  by (simp_all add: has_def build_linux_def)

theorem variant_tasks_spec_witness:
  "variant_tasks workload_empty_requires (build_linux (YStr ''standalone'')) = Inr [] \<and>
   variant_tasks workload_standalone (build_linux (YStr ''standalone'')) =
     Inr [\<lparr>name = ''foo'', mongodb_setup = YNull, workload = workload_standalone\<rparr>] \<and>
   variant_tasks workload_standalone (build_linux (YStr ''replica'')) = Inr []"
proof -
  have n: "to_snake_case (file_base_name workload_standalone) = ''foo''"
    unfolding workload_standalone_def file_base_name_def by code_simp
  have t: "all_tasks workload_standalone =
      Inr [\<lparr>name = ''foo'', mongodb_setup = YNull, workload = workload_standalone\<rparr>]"
    using n by (simp add: all_tasks_def) (simp add: workload_standalone_def)
  have r: "requires workload_standalone =
      YMap [(''mongodb'', YList [YStr ''standalone'']),
            (''build_variant'', YList [YStr ''linux'', YStr ''osx''])]"
    by (simp add: workload_standalone_def)
  have e: "requires workload_empty_requires = YMap []"
    by (simp add: workload_empty_requires_def)
  from variant_tasks_spec [of workload_empty_requires "build_linux (YStr ''standalone'')"] e
  have 1: "variant_tasks workload_empty_requires (build_linux (YStr ''standalone'')) = Inr []"
    by simp
  let ?m = "[(''mongodb'', YList [YStr ''standalone'']),
             (''build_variant'', YList [YStr ''linux'', YStr ''osx''])]"
  let ?ts = "[\<lparr>name = ''foo'', mongodb_setup = YNull, workload = workload_standalone\<rparr>]"
  have h: "requires workload_standalone = YMap ?m \<and> ?m \<noteq> [] \<and>
           all_tasks workload_standalone = Inr ?ts \<and>
           (\<forall>kv\<in>set ?m. \<exists>r. has (build_linux t) (fst kv) (snd kv) = Inr r)" for t
    using r t by (auto simp: has_build_linux)
  from variant_tasks_spec [of workload_standalone "build_linux (YStr ''standalone'')",
      THEN conjunct2, THEN spec, THEN spec, THEN mp, OF h]
  have 2: "variant_tasks workload_standalone (build_linux (YStr ''standalone'')) =
     Inr [\<lparr>name = ''foo'', mongodb_setup = YNull, workload = workload_standalone\<rparr>]"
    by (simp add: has_build_linux)
  from variant_tasks_spec [of workload_standalone "build_linux (YStr ''replica'')",
      THEN conjunct2, THEN spec, THEN spec, THEN mp, OF h]
  have 3: "variant_tasks workload_standalone (build_linux (YStr ''replica'')) = Inr []"
    by (simp add: has_build_linux)
  from 1 2 3 show ?thesis by simp
qed

text \<open>
  C1 as stated fails on the empty rule set: no pair is unsatisfied, \<open>all_tasks\<close> returns
  one task, and \<open>variant_tasks\<close> returns none, by the guard \<^verbatim>\<open>if not self.requires\<close>.
\<close>

theorem variant_tasks_empty_requires_counterexample:
  "Workload_init fs_empty_requires ''/ws'' ''/repo/src/workloads/Foo.yml'' False =
     Inr workload_empty_requires \<and>
   requires workload_empty_requires = YMap [] \<and>
   all_tasks workload_empty_requires =
     Inr [\<lparr>name = ''foo'', mongodb_setup = YNull, workload = workload_empty_requires\<rparr>] \<and>
   variant_tasks workload_empty_requires (build_linux (YStr ''standalone'')) = Inr [] \<and>
   variant_tasks workload_empty_requires (build_linux (YStr ''standalone'')) \<noteq>
     all_tasks workload_empty_requires"
proof -
  have n: "to_snake_case (file_base_name workload_empty_requires) = ''foo''"
    unfolding workload_empty_requires_def file_base_name_def by code_simp
  have t: "all_tasks workload_empty_requires =
      Inr [\<lparr>name = ''foo'', mongodb_setup = YNull, workload = workload_empty_requires\<rparr>]"
    using n by (simp add: all_tasks_def) (simp add: workload_empty_requires_def)
  have i: "Workload_init fs_empty_requires ''/ws'' ''/repo/src/workloads/Foo.yml'' False =
     Inr workload_empty_requires"
    by (simp add: Workload_init_def load_def path_join_def fs_empty_requires_def
        workload_empty_requires_def)
  have v: "variant_tasks workload_empty_requires (build_linux (YStr ''standalone'')) = Inr []"
    by (simp add: variant_tasks_def workload_empty_requires_def)
  from n t i v show ?thesis by (simp add: workload_empty_requires_def)
qed

subsection \<open>The PrepareEnvironmentWith block\<close>

text \<open>
  What the constructor does test. For a workload document that is a mapping whose
  \<^verbatim>\<open>AutoRun\<close> block is a mapping with a \<^verbatim>\<open>Requires\<close> key and a \<^verbatim>\<open>PrepareEnvironmentWith\<close>
  mapping: construction fails with the ValueError whose message ends in the file path
  whenever that mapping does not have exactly one entry or has no key \<^verbatim>\<open>mongodb_setup\<close>,
  and it succeeds, with the list as the setups, on \<^verbatim>\<open>mongodb_setup\<close> with a list.
\<close>

lemma prepare_environment_checked:
  assumes "load fs ws_root path = Inr (YMap doc)"
    and "map_of doc ''AutoRun'' = Some (YMap auto_run)"
    and "map_of auto_run ''Requires'' = Some req"
    and "map_of auto_run ''PrepareEnvironmentWith'' = Some (YMap prep)"
  shows "(length prep \<noteq> 1 \<or> map_of prep ''mongodb_setup'' = None \<longrightarrow>
            Workload_init fs ws_root path modified =
              Inl (ValueError (''Need exactly mongodb_setup: [list] in PrepareEnvironmentWith for file '' @ path))) \<and>
         (\<forall>ids. prep = [(''mongodb_setup'', YList ids)] \<longrightarrow>
            Workload_init fs ws_root path modified =
              Inr \<lparr>file_path = path, is_modified = modified, requires = req, setups = YList ids\<rparr>)"
  using assms by (auto simp: Workload_init_def read_setups_def setup_error_def)

lemma load_fs_prep:
  "load (fs_prep prep) ''/ws'' ''/repo/src/workloads/Foo.yml'' =
     Inr (YMap [(''AutoRun'',
            YMap [(''Requires'', YMap [(''mongodb'', YList [YStr ''standalone''])]),
                  (''PrepareEnvironmentWith'', prep)])])"
  by (simp add: load_def path_join_def fs_prep_def)

lemma prepare_environment_checked_examples:
  "Workload_init (fs_prep (YMap [(''setup'', YList [YStr ''standalone''])])) ''/ws''
       ''/repo/src/workloads/Foo.yml'' False =
     Inl (ValueError ''Need exactly mongodb_setup: [list] in PrepareEnvironmentWith for file /repo/src/workloads/Foo.yml'') \<and>
   Workload_init (fs_prep (YMap [(''mongodb_setup'', YList [YStr ''standalone'']),
                                (''other'', YList [])])) ''/ws''
       ''/repo/src/workloads/Foo.yml'' False =
     Inl (ValueError ''Need exactly mongodb_setup: [list] in PrepareEnvironmentWith for file /repo/src/workloads/Foo.yml'') \<and>
   Workload_init (fs_prep (YMap [(''mongodb_setup'', YList [YStr ''standalone'', YStr ''replica''])]))
       ''/ws'' ''/repo/src/workloads/Foo.yml'' False =
     Inr \<lparr>file_path = ''/repo/src/workloads/Foo.yml'', is_modified = False,
          requires = YMap [(''mongodb'', YList [YStr ''standalone''])],
          setups = YList [YStr ''standalone'', YStr ''replica'']\<rparr>"
proof -
  let ?req = "YMap [(''mongodb'', YList [YStr ''standalone''])]"
  have a: "map_of [(''AutoRun'', YMap [(''Requires'', ?req), (''PrepareEnvironmentWith'', YMap p)])]
             ''AutoRun'' = Some (YMap [(''Requires'', ?req), (''PrepareEnvironmentWith'', YMap p)])" for p
    by simp
  have r: "map_of [(''Requires'', ?req), (''PrepareEnvironmentWith'', YMap p)] ''Requires''
             = Some ?req" for p
    by simp
  have q: "map_of [(''Requires'', ?req), (''PrepareEnvironmentWith'', YMap p)]
             ''PrepareEnvironmentWith'' = Some (YMap p)" for p
    by simp
  note t = prepare_environment_checked [OF load_fs_prep a r q, of _ False]
  from t [of "[(''setup'', YList [YStr ''standalone''])]"]
    t [of "[(''mongodb_setup'', YList [YStr ''standalone'']), (''other'', YList [])]"]
    t [of "[(''mongodb_setup'', YList [YStr ''standalone'', YStr ''replica''])]"]
  show ?thesis by simp
qed

text \<open>
  C2. The claim holds of the intended check and the code misses part of it. The
  constructor tests the number of entries and the key of \<^verbatim>\<open>PrepareEnvironmentWith\<close>, never
  the value under \<^verbatim>\<open>mongodb_setup\<close>, although its own message asks for
  \<^verbatim>\<open>mongodb_setup: [list]\<close> and \<open>setups\<close> is declared a list of strings. On
  \<^verbatim>\<open>mongodb_setup: standalone\<close> construction succeeds with the string as the setups, and
  \<open>all_tasks\<close> then gives one task for each character of it. A \<^verbatim>\<open>PrepareEnvironmentWith\<close>
  that is null, or the list holding \<^verbatim>\<open>mongodb_setup\<close>, is rejected, but by a TypeError that
  names no file.
\<close>

theorem non_list_setup_accepted:
  "Workload_init (fs_prep (YMap [(''mongodb_setup'', YStr ''standalone'')])) ''/ws''
       ''/repo/src/workloads/Foo.yml'' False = Inr workload_string_setup \<and>
   setups workload_string_setup = YStr ''standalone'' \<and>
   map_sum id (map name) (all_tasks workload_string_setup) =
     Inr [''foo_s'', ''foo_t'', ''foo_a'', ''foo_n'', ''foo_d'',
          ''foo_a'', ''foo_l'', ''foo_o'', ''foo_n'', ''foo_e''] \<and>
   Workload_init (fs_prep YNull) ''/ws'' ''/repo/src/workloads/Foo.yml'' False = Inl TypeError \<and>
   Workload_init (fs_prep (YList [YStr ''mongodb_setup''])) ''/ws''
       ''/repo/src/workloads/Foo.yml'' False = Inl TypeError"
proof -
  have i: "Workload_init (fs_prep (YMap [(''mongodb_setup'', YStr ''standalone'')])) ''/ws''
       ''/repo/src/workloads/Foo.yml'' False = Inr workload_string_setup"
    by (simp add: Workload_init_def read_setups_def load_fs_prep workload_string_setup_def)
  have s: "setups workload_string_setup = YStr ''standalone''"
    by (simp add: workload_string_setup_def)
  have b: "to_snake_case (file_base_name workload_string_setup) = ''foo''"
    unfolding workload_string_setup_def file_base_name_def by code_simp
  have c: "to_snake_case ''s'' = ''s''" "to_snake_case ''t'' = ''t''"
    "to_snake_case ''a'' = ''a''" "to_snake_case ''n'' = ''n''" "to_snake_case ''d'' = ''d''"
    "to_snake_case ''l'' = ''l''" "to_snake_case ''o'' = ''o''" "to_snake_case ''e'' = ''e''"
    by code_simp+
  have t: "map_sum id (map name) (all_tasks workload_string_setup) =
     Inr [''foo_s'', ''foo_t'', ''foo_a'', ''foo_n'', ''foo_d'',
          ''foo_a'', ''foo_l'', ''foo_o'', ''foo_n'', ''foo_e'']"
    using b c s by (simp add: all_tasks_def)
  have n: "Workload_init (fs_prep YNull) ''/ws'' ''/repo/src/workloads/Foo.yml'' False
             = Inl TypeError"
    by (simp add: Workload_init_def read_setups_def load_fs_prep)
  have l: "Workload_init (fs_prep (YList [YStr ''mongodb_setup''])) ''/ws''
             ''/repo/src/workloads/Foo.yml'' False = Inl TypeError"
    by (simp add: Workload_init_def read_setups_def load_fs_prep)
  from i s t n l show ?thesis by simp
qed

subsection \<open>YamlReader.load and load_set\<close>

lemma load_missing:
  "fs (path_join ws_root path) = None \<Longrightarrow>
   load fs ws_root path = Inl (FileNotFound (path_join ws_root path))"
  by (simp add: load_def)

text \<open>
  C8. \<open>load_set\<close> tests each path as it is given, and \<open>load\<close> then opens it joined with
  the workspace root: for a path that exists in the working directory and not under the
  workspace root, \<open>load_set\<close> raises the file-not-found error instead of dropping it.
\<close>

theorem load_set_fails_on_missing_joined_path:
  "exists fs_cwd_only ''a.yml'' \<and>
   path_join ''ws'' ''a.yml'' = ''ws/a.yml'' \<and>
   fs_cwd_only ''ws/a.yml'' = None \<and>
   load_set fs_cwd_only ''ws'' [''a.yml''] = Inl (FileNotFound ''ws/a.yml'')"
  by (simp add: exists_def fs_cwd_only_def path_join_def load_set_def load_def)

subsection \<open>Repo.patch_tasks\<close>

lemma flatten_tasks_concat:
  "map f ws = map Inr tss \<Longrightarrow> flatten_tasks f ws = Inr (concat tss)"
proof (induction ws arbitrary: tss)
  case Nil
  then show ?case by simp
next
  case (Cons w ws)
  then obtain ts rest where tss: "tss = ts # rest" and w: "f w = Inr ts"
    and r: "map f ws = map Inr rest"
    by (cases tss) auto
  from Cons.IH [OF r] w tss show ?case by simp
qed

lemma setup_tasks_workload:
  "setup_tasks w base items = Inr ts \<Longrightarrow> t \<in> set ts \<Longrightarrow> workload t = w"
  by (induction items arbitrary: ts) (auto split: yaml.splits sum.splits)

lemma all_tasks_workload: "all_tasks w = Inr ts \<Longrightarrow> t \<in> set ts \<Longrightarrow> workload t = w"
  by (auto simp: all_tasks_def Let_def split: if_splits sum.splits dest: setup_tasks_workload)

lemma concat_tasks_workload:
  "map all_tasks ws = map Inr tss \<Longrightarrow> t \<in> set (concat tss) \<Longrightarrow> workload t \<in> set ws"
proof (induction ws arbitrary: tss)
  case Nil
  then show ?case by simp
next
  case (Cons w ws)
  then obtain ts rest where tss: "tss = ts # rest" and w: "all_tasks w = Inr ts"
    and r: "map all_tasks ws = map Inr rest"
    by (cases tss) auto
  from Cons.prems(2) tss have "t \<in> set ts \<or> t \<in> set (concat rest)" by simp
  then show ?case
  proof
    assume "t \<in> set ts"
    with w show ?thesis by (simp add: all_tasks_workload)
  next
    assume "t \<in> set (concat rest)"
    from Cons.IH [OF r this] show ?thesis by simp
  qed
qed

lemma concat_tasks_include:
  "map all_tasks ws = map Inr tss \<Longrightarrow> w \<in> set ws \<Longrightarrow>
   \<exists>ts. all_tasks w = Inr ts \<and> set ts \<subseteq> set (concat tss)"
proof (induction ws arbitrary: tss)
  case Nil
  then show ?case by simp
next
  case (Cons v ws)
  then obtain ts rest where tss: "tss = ts # rest" and v: "all_tasks v = Inr ts"
    and r: "map all_tasks ws = map Inr rest"
    by (cases tss) auto
  from Cons.prems(2) have "w = v \<or> w \<in> set ws" by auto
  then show ?case
  proof
    assume "w = v"
    with v tss show ?thesis by auto
  next
    assume "w \<in> set ws"
    from Cons.IH [OF r this] tss show ?thesis by auto
  qed
qed

text \<open>
  C3. When the workloads are constructed and \<open>all_tasks\<close> returns for each modified one,
  \<open>patch_tasks\<close> returns the concatenation of those task lists, in the order of the
  workloads: every task in it belongs to a modified workload, and every task of every
  modified workload is in it. The requirements of a workload are never consulted: in
  the example, B's tasks are returned for a build on which \<open>variant_tasks\<close> gives none.
\<close>

theorem patch_tasks_spec:
  assumes "all_workloads fs ws_root lister = Inr wl"
    and "map all_tasks (filter is_modified wl) = map Inr tss"
  shows "patch_tasks fs ws_root lister = Inr (concat tss) \<and>
         (\<forall>t\<in>set (concat tss). workload t \<in> set wl \<and> is_modified (workload t)) \<and>
         (\<forall>w\<in>set wl. is_modified w \<longrightarrow>
            (\<exists>ts. all_tasks w = Inr ts \<and> set ts \<subseteq> set (concat tss)))"
proof (intro conjI ballI impI)
  show "patch_tasks fs ws_root lister = Inr (concat tss)"
    using assms by (simp add: patch_tasks_def modified_workloads_def flatten_tasks_concat)
next
  fix t assume "t \<in> set (concat tss)"
  from concat_tasks_workload [OF assms(2) this]
  show "workload t \<in> set wl" and "is_modified (workload t)" by simp_all
next
  fix w assume "w \<in> set wl" and "is_modified w"
  then have "w \<in> set (filter is_modified wl)" by simp
  from concat_tasks_include [OF assms(2) this]
  show "\<exists>ts. all_tasks w = Inr ts \<and> set ts \<subseteq> set (concat tss)" .
qed

lemma all_workloads_two: "all_workloads fs_two ''/ws'' lister_two = Inr [workload_a, workload_b]"
  by (simp add: all_workloads_def all_workload_files_def modified_workload_files_def
      lister_two_def ends_with_def path_join_def Workload_init_def read_setups_def load_def
      fs_two_def workload_a_def workload_b_def)

lemma all_tasks_workload_b:
  "all_tasks workload_b = Inr [\<lparr>name = ''b_x'', mongodb_setup = YStr ''x'', workload = workload_b\<rparr>]"
proof -
  have "to_snake_case (file_base_name workload_b) = ''b''" "to_snake_case ''x'' = ''x''"
    unfolding workload_b_def file_base_name_def by code_simp+
  then show ?thesis by (simp add: all_tasks_def) (simp add: workload_b_def)
qed

theorem patch_tasks_spec_witness:
  "all_workloads fs_two ''/ws'' lister_two = Inr [workload_a, workload_b] \<and>
   \<not> is_modified workload_a \<and> is_modified workload_b \<and>
   variant_tasks workload_b \<lparr>conts = YMap [(''build_variant'', YStr ''osx'')]\<rparr> = Inr [] \<and>
   patch_tasks fs_two ''/ws'' lister_two =
     Inr [\<lparr>name = ''b_x'', mongodb_setup = YStr ''x'', workload = workload_b\<rparr>]"
proof -
  let ?tb = "[\<lparr>name = ''b_x'', mongodb_setup = YStr ''x'', workload = workload_b\<rparr>]"
  have m: "\<not> is_modified workload_a" "is_modified workload_b"
    by (simp_all add: workload_a_def workload_b_def)
  have f: "map all_tasks (filter is_modified [workload_a, workload_b]) = map Inr [?tb]"
    using m by (simp add: all_tasks_workload_b)
  have "has \<lparr>conts = YMap [(''build_variant'', YStr ''osx'')]\<rparr> ''build_variant''
          (YList [YStr ''linux'']) = Inr False"
    by (simp add: has_def)
  then have v: "variant_tasks workload_b \<lparr>conts = YMap [(''build_variant'', YStr ''osx'')]\<rparr> = Inr []"
    by (simp add: variant_tasks_def all_tasks_workload_b meets_criteria_def)
      (simp add: workload_b_def)
  from patch_tasks_spec [OF all_workloads_two f] all_workloads_two m v
  show ?thesis by simp
qed

end
